theory Spec2Isabelle
  imports Main
begin

section \<open>Values, tables and files\<close>

text \<open>
  The application (\<^verbatim>\<open>streamlit_app.py\<close>) keeps its data in files: a roster, a JSON
  mapping of report files to usernames, JSONL report files and one Excel action log per
  user. A scalar read from JSON or from a sheet is a string, a number or, for an empty
  cell of a sheet, the missing value. Numbers are taken by their value, as Python's
  \<^verbatim>\<open>==\<close> and sets take them; numbers that are not integers are left out.
\<close>

datatype val = VStr string | VInt int | VNaN

datatype error =
  AttributeError | KeyError | JSONDecodeError | ReadError | WriteError | StreamlitAPIException

text \<open>
  A pandas DataFrame: its column names and its rows, each row holding one cell per
  column, in column order.
\<close>

record dataframe =
  columns :: "string list"
  rows :: "val list list"

text \<open>
  An Excel file on disk: absent, present but not readable as a workbook
  (\<^verbatim>\<open>pd.read_excel\<close> raises), or a workbook whose sheet was written from a frame.
\<close>

datatype xlsx = Absent | Corrupt | Workbook dataframe

text \<open>
  What pandas and the file system do is not in the source and is taken as given:
  \<open>read_sheet\<close> is the frame that \<^verbatim>\<open>pd.read_excel\<close> returns for a sheet written from a
  frame (pandas infers the type of the cells again when it reads), and \<open>can_write\<close>
  tells whether \<^verbatim>\<open>to_excel\<close> can write the log file of a username (it cannot when the
  path of the file names a directory that does not exist). Nothing is assumed of them.
\<close>

record excel =
  read_sheet :: "dataframe \<Rightarrow> dataframe"
  can_write :: "string \<Rightarrow> bool"

definition exists_file :: "xlsx \<Rightarrow> bool" where
  "exists_file f = (f \<noteq> Absent)"

fun read_excel :: "excel \<Rightarrow> xlsx \<Rightarrow> error + dataframe" where
  "read_excel x (Workbook df) = Inr (read_sheet x df)"
| "read_excel x Corrupt = Inl ReadError"
| "read_excel x Absent = Inl ReadError"

definition to_excel :: "excel \<Rightarrow> string \<Rightarrow> dataframe \<Rightarrow> error + xlsx" where
  "to_excel x username df = (if can_write x username then Inr (Workbook df) else Inl WriteError)"

text \<open>The cell of a row under a column name; \<open>None\<close> when the frame has no such column.\<close>

definition cell :: "dataframe \<Rightarrow> val list \<Rightarrow> string \<Rightarrow> val option" where
  "cell df row name = map_of (zip (columns df) row) name"

text \<open>\<^verbatim>\<open>pd.concat([a, b], ignore_index=True)\<close> for two frames with the same columns.\<close>

definition concat_frames :: "dataframe \<Rightarrow> dataframe \<Rightarrow> dataframe" where
  "concat_frames a b = \<lparr>columns = columns a, rows = rows a @ rows b\<rparr>"

section \<open>The action log\<close>

definition log_columns :: "string list" where
  "log_columns = [''Timestamp'', ''Username'', ''Action'', ''Report ID'', ''Rating'', ''Comments'']"

definition new_log_entry :: "string \<Rightarrow> string \<Rightarrow> string \<Rightarrow> val \<Rightarrow> string \<Rightarrow> string \<Rightarrow> dataframe" where
  "new_log_entry timestamp username action report_id rating comments =
     \<lparr>columns = log_columns,
      rows = [[VStr timestamp, VStr username, VStr action, report_id, VStr rating, VStr comments]]\<rparr>"

text \<open>
  The \<^verbatim>\<open>try\<close> block of \<^verbatim>\<open>log_action\<close> on the user's log file: the frame to write is
  made from what is read, and written. Reading and writing may raise.
\<close>

definition try_log :: "excel \<Rightarrow> string \<Rightarrow> xlsx \<Rightarrow> dataframe \<Rightarrow> error + xlsx" where
  "try_log x username log_file entry =
     (if exists_file log_file then
        (case read_excel x log_file of
           Inl e \<Rightarrow> Inl e
         | Inr log_df \<Rightarrow>
             (if columns log_df \<noteq> log_columns then to_excel x username entry
              else to_excel x username (concat_frames log_df entry)))
      else to_excel x username entry)"

text \<open>
  The body of \<^verbatim>\<open>log_action\<close> on the user's log file. The result is the file afterwards
  and the message of \<^verbatim>\<open>st.sidebar.error\<close>, if the \<^verbatim>\<open>except\<close> branch ran; the file is
  then as it was.
\<close>

definition log_action_file :: "excel \<Rightarrow> string \<Rightarrow> xlsx \<Rightarrow> dataframe \<Rightarrow> xlsx \<times> error option" where
  "log_action_file x username log_file entry =
     (case try_log x username log_file entry of
        Inl e \<Rightarrow> (log_file, Some e)
      | Inr f \<Rightarrow> (f, None))"

text \<open>
  The directory \<^verbatim>\<open>logs/\<close> maps each username to the file
  \<^verbatim>\<open>{username}_action_log.xlsx\<close>; creating the directory is left out.
  \<^verbatim>\<open>log_action\<close> takes the clock reading as an input.
\<close>

type_synonym logs = "string \<Rightarrow> xlsx"

definition log_action ::
  "excel \<Rightarrow> string \<Rightarrow> string \<Rightarrow> string \<Rightarrow> val \<Rightarrow> string \<Rightarrow> string \<Rightarrow> logs
     \<Rightarrow> logs \<times> error option" where
  "log_action x now username action report_id rating comments lg =
     (case log_action_file x username (lg username)
             (new_log_entry now username action report_id rating comments) of
        (f, err) \<Rightarrow> (lg(username := f), err))"

text \<open>
  The \<^verbatim>\<open>try\<close> body of \<^verbatim>\<open>get_rated_reports\<close>: selecting a column that the frame does not
  have raises \<^verbatim>\<open>KeyError\<close>.
\<close>

definition submitted_ids :: "dataframe \<Rightarrow> error + val set" where
  "submitted_ids log_df =
     (if ''Action'' \<notin> set (columns log_df) then Inl KeyError
      else if ''Report ID'' \<notin> set (columns log_df) then Inl KeyError
      else Inr (set (List.map_filter (\<lambda>row. cell log_df row ''Report ID'')
                  (filter (\<lambda>row. cell log_df row ''Action'' = Some (VStr ''Submit Rating''))
                     (rows log_df)))))"

definition get_rated_reports_file :: "excel \<Rightarrow> xlsx \<Rightarrow> val set" where
  "get_rated_reports_file x log_file =
     (if \<not> exists_file log_file then {}
      else (case read_excel x log_file of
              Inl e \<Rightarrow> {}
            | Inr log_df \<Rightarrow> (case submitted_ids log_df of Inl e \<Rightarrow> {} | Inr s \<Rightarrow> s)))"

definition get_rated_reports :: "excel \<Rightarrow> logs \<Rightarrow> string \<Rightarrow> val set" where
  "get_rated_reports x lg username = get_rated_reports_file x (lg username)"

section \<open>Report files and the assignment of users to them\<close>

text \<open>
  A report is the dictionary that \<^verbatim>\<open>json.loads\<close> makes of one line of a JSONL file.
  A line of a file either parses to a report or makes \<^verbatim>\<open>json.loads\<close> raise.
\<close>

type_synonym report = "(string \<times> val) list"

datatype line = Json report | Garbage

fun loads :: "line \<Rightarrow> error + report" where
  "loads (Json r) = Inr r"
| "loads Garbage = Inl JSONDecodeError"

text \<open>\<^verbatim>\<open>r.get(key)\<close>: \<open>None\<close> when the key is missing.\<close>

definition get :: "report \<Rightarrow> string \<Rightarrow> val option" where
  "get r key = map_of r key"

text \<open>\<^verbatim>\<open>r[key]\<close>: raises \<^verbatim>\<open>KeyError\<close> when the key is missing.\<close>

definition item :: "report \<Rightarrow> string \<Rightarrow> error + val" where
  "item r key = (case map_of r key of None \<Rightarrow> Inl KeyError | Some v \<Rightarrow> Inr v)"

text \<open>
  The loop of \<^verbatim>\<open>get_report_file_for_user\<close> over \<^verbatim>\<open>mapping.items()\<close>, with the
  fallback that follows it.
\<close>

fun walk_mapping :: "(string \<times> string list) list \<Rightarrow> string \<Rightarrow> string" where
  "walk_mapping [] username = ''rating_reports.jsonl''"
| "walk_mapping ((report_file, users) # rest) username =
     (if username \<in> set users then report_file else walk_mapping rest username)"

text \<open>
  The mapping file, when it exists, holds a JSON object of username arrays, in file
  order; \<open>None\<close> is the missing file.
\<close>

definition get_report_file_for_user :: "(string \<times> string list) list option \<Rightarrow> string \<Rightarrow> string" where
  "get_report_file_for_user mapping_file username =
     (case mapping_file of
        None \<Rightarrow> ''rating_reports.jsonl''
      | Some mapping \<Rightarrow> walk_mapping mapping username)"

text \<open>The loop of \<^verbatim>\<open>load_reports\<close> over the lines of the file.\<close>

fun read_lines :: "line list \<Rightarrow> report list \<Rightarrow> error + report list" where
  "read_lines [] reports = Inr reports"
| "read_lines (l # ls) reports =
     (case loads l of Inl e \<Rightarrow> Inl e | Inr r \<Rightarrow> read_lines ls (reports @ [r]))"

definition load_reports :: "line list option \<Rightarrow> error + report list" where
  "load_reports file =
     (case file of None \<Rightarrow> Inr [] | Some ls \<Rightarrow> read_lines ls [])"

text \<open>
  The working directory maps a path to the lines of the file there, if any. The cache of
  \<^verbatim>\<open>st.cache_data\<close> is left out: the report files stay as they are while the
  application runs.
\<close>

type_synonym disk = "string \<Rightarrow> line list option"

definition load_all_reports :: "disk \<Rightarrow> string option \<Rightarrow> error + report list" where
  "load_all_reports d report_file =
     (case report_file of None \<Rightarrow> Inr [] | Some p \<Rightarrow> load_reports (d p))"

definition get_report_by_id :: "disk \<Rightarrow> val \<Rightarrow> string \<Rightarrow> error + report option" where
  "get_report_by_id d rating_id report_file =
     (case load_all_reports d (Some report_file) of
        Inl e \<Rightarrow> Inl e
      | Inr reports \<Rightarrow> Inr (List.find (\<lambda>report. get report ''rating_id'' = Some rating_id) reports))"

text \<open>
  The list comprehension of both pages:
  \<^verbatim>\<open>[r for r in all_reports if r.get('rating_id') not in rated_reports]\<close>.
  A report without the key yields \<^verbatim>\<open>None\<close>, which is in no rated set.
\<close>

definition reports_to_rate :: "report list \<Rightarrow> val set \<Rightarrow> report list" where
  "reports_to_rate all_reports rated_reports =
     filter (\<lambda>r. case get r ''rating_id'' of None \<Rightarrow> True | Some i \<Rightarrow> i \<notin> rated_reports) all_reports"

section \<open>The session and its pages\<close>

text \<open>
  \<^verbatim>\<open>st.session_state\<close>: \<^verbatim>\<open>logged_in\<close> and \<^verbatim>\<open>page\<close> are set when the session starts,
  the other keys may be missing.
\<close>

record session =
  logged_in :: bool
  page :: string
  username :: "string option"
  is_admin :: "bool option"
  selected_report_id :: "val option"

definition fresh_session :: session where
  "fresh_session = \<lparr>logged_in = False, page = ''login'', username = None, is_admin = None,
     selected_report_id = None\<rparr>"

text \<open>
  A row of the roster as \<^verbatim>\<open>load_users\<close> returns it: the username cell, the password
  cell as \<^verbatim>\<open>str\<close> renders it, and the \<^verbatim>\<open>is_admin\<close> cell, \<open>None\<close> when the roster has
  no such column.
\<close>

record user_row =
  user_name :: val
  password_str :: string
  admin_cell :: "bool option"

record env =
  pandas :: excel
  now :: string
  users :: "user_row list option"
  mapping_file :: "(string \<times> string list) list option"
  disk :: disk

text \<open>What the user did on the page shown by the previous run of the script.\<close>

datatype event =
  NoEvent
| LoginSubmit string string
| LogoutClick
| StartClick
| BackClick
| SubmitClick string string

text \<open>
  What a page puts on the screen, as far as the properties need it. \<open>ProgressLine\<close>
  stands for the progress bar and the line below it, with the rated count and the total
  count that \<^verbatim>\<open>draw_progress_page\<close> computes.
\<close>

datatype widget =
  Title string
| RatingTitle val
| ErrorMsg string
| SuccessMsg string
| SidebarError error
| ProgressLine nat nat

text \<open>
  One run of a page function: the session and the logs afterwards, what was put on the
  screen, and whether the run ended in \<^verbatim>\<open>st.rerun()\<close>.
\<close>

record outcome =
  sess :: session
  files :: logs
  shown :: "widget list"
  rerun :: bool

text \<open>
  A run that raises ends with the exception and the logs as they are at that moment:
  what \<^verbatim>\<open>log_action\<close> wrote before the exception stays written.
\<close>

type_synonym result = "(error \<times> logs) + outcome"

definition sidebar :: "error option \<Rightarrow> widget list" where
  "sidebar err = (case err of None \<Rightarrow> [] | Some e \<Rightarrow> [SidebarError e])"

definition login_failed :: "session \<Rightarrow> env \<Rightarrow> logs \<Rightarrow> string \<Rightarrow> outcome" where
  "login_failed s e lg name =
     (if name \<noteq> [] then
        (case log_action (pandas e) (now e) name ''Login Fail'' (VStr []) [] [] lg of
           (lg', err) \<Rightarrow>
             \<lparr>sess = s, files = lg',
              shown = [Title ''MetaRate Login'', ErrorMsg ''Invalid username or password''] @ sidebar err,
              rerun = False\<rparr>)
      else \<lparr>sess = s, files = lg,
             shown = [Title ''MetaRate Login'', ErrorMsg ''Invalid username or password''],
             rerun = False\<rparr>)"

definition draw_login_page :: "event \<Rightarrow> session \<Rightarrow> env \<Rightarrow> logs \<Rightarrow> result" where
  "draw_login_page ev s e lg =
     (case users e of
        None \<Rightarrow> Inr \<lparr>sess = s, files = lg,
                     shown = [Title ''MetaRate Login'', ErrorMsg ''User file not found at users.xlsx''],
                     rerun = False\<rparr>
      | Some users_df \<Rightarrow>
          (case ev of
             LoginSubmit name password \<Rightarrow>
               (case filter (\<lambda>row. user_name row = VStr name) users_df of
                  [] \<Rightarrow> Inr (login_failed s e lg name)
                | row # _ \<Rightarrow>
                    if password_str row = password then
                      (case log_action (pandas e) (now e) name ''Login Success'' (VStr []) [] [] lg of
                         (lg', err) \<Rightarrow>
                           Inr \<lparr>sess = s\<lparr>logged_in := True, username := Some name,
                                         is_admin := Some (case admin_cell row of None \<Rightarrow> False | Some b \<Rightarrow> b),
                                         page := ''progress''\<rparr>,
                                files = lg',
                                shown = [Title ''MetaRate Login''] @ sidebar err,
                                rerun = True\<rparr>)
                    else Inr (login_failed s e lg name))
           | _ \<Rightarrow> Inr \<lparr>sess = s, files = lg, shown = [Title ''MetaRate Login''], rerun = False\<rparr>))"

text \<open>
  The progress page. \<^verbatim>\<open>st.progress\<close> takes a fraction from 0 to 1 and raises for
  \<^verbatim>\<open>rated_count / total_reports\<close> above 1; the line of text and the button come after it.
\<close>

definition draw_progress_page :: "event \<Rightarrow> session \<Rightarrow> env \<Rightarrow> logs \<Rightarrow> result" where
  "draw_progress_page ev s e lg =
     (case username s of
        None \<Rightarrow> Inl (AttributeError, lg)
      | Some name \<Rightarrow>
          if ev = LogoutClick then
            (case log_action (pandas e) (now e) name ''Logout'' (VStr []) [] [] lg of
               (lg', err) \<Rightarrow>
                 Inr \<lparr>sess = s\<lparr>logged_in := False, page := ''login'', username := None, is_admin := None\<rparr>,
                      files = lg',
                      shown = [Title ''Your Progress''] @ sidebar err,
                      rerun = True\<rparr>)
          else
            (case load_all_reports (disk e) (Some (get_report_file_for_user (mapping_file e) name)) of
               Inl x \<Rightarrow> Inl (x, lg)
             | Inr all_reports \<Rightarrow>
                 let rated_reports = get_rated_reports (pandas e) lg name;
                     total_reports = length all_reports;
                     rated_count = card rated_reports;
                     screen = [Title ''Your Progress'', ProgressLine rated_count total_reports]
                 in
                   if 0 < total_reports \<and> total_reports < rated_count then
                     Inl (StreamlitAPIException, lg)
                   else if ev = StartClick then
                     (case reports_to_rate all_reports rated_reports of
                        [] \<Rightarrow> Inr \<lparr>sess = s, files = lg,
                                   shown = screen @ [SuccessMsg ''You have rated all available reports!''],
                                   rerun = False\<rparr>
                      | r # _ \<Rightarrow>
                          (case item r ''rating_id'' of
                             Inl x \<Rightarrow> Inl (x, lg)
                           | Inr i \<Rightarrow>
                               Inr \<lparr>sess = s\<lparr>page := ''rating'', selected_report_id := Some i\<rparr>,
                                    files = lg, shown = screen, rerun = True\<rparr>))
                   else Inr \<lparr>sess = s, files = lg, shown = screen, rerun = False\<rparr>))"

definition submit_rating ::
  "session \<Rightarrow> env \<Rightarrow> logs \<Rightarrow> string \<Rightarrow> val \<Rightarrow> string \<Rightarrow> string \<Rightarrow> string \<Rightarrow> result" where
  "submit_rating s e lg name selected report_file rating comments =
     (case log_action (pandas e) (now e) name ''Submit Rating'' selected rating comments lg of
        (lg', err) \<Rightarrow>
          (case load_all_reports (disk e) (Some report_file) of
             Inl x \<Rightarrow> Inl (x, lg')
           | Inr all_reports \<Rightarrow>
               let rated_reports = insert selected (get_rated_reports (pandas e) lg' name);
                   screen = [RatingTitle selected] @ sidebar err @ [SuccessMsg ''Rating submitted!'']
               in
                 (case reports_to_rate all_reports rated_reports of
                    [] \<Rightarrow> Inr \<lparr>sess = s\<lparr>page := ''progress'', selected_report_id := None\<rparr>,
                               files = lg', shown = screen, rerun = True\<rparr>
                  | r # _ \<Rightarrow>
                      (case item r ''rating_id'' of
                         Inl x \<Rightarrow> Inl (x, lg')
                       | Inr i \<Rightarrow>
                           Inr \<lparr>sess = s\<lparr>selected_report_id := Some i\<rparr>,
                                files = lg', shown = screen, rerun = True\<rparr>))))"

definition draw_rating_page :: "event \<Rightarrow> session \<Rightarrow> env \<Rightarrow> logs \<Rightarrow> result" where
  "draw_rating_page ev s e lg =
     (case selected_report_id s of
        None \<Rightarrow> Inl (AttributeError, lg)
      | Some selected \<Rightarrow>
          (case username s of
             None \<Rightarrow> Inl (AttributeError, lg)
           | Some name \<Rightarrow>
               let report_file = get_report_file_for_user (mapping_file e) name in
                 (case get_report_by_id (disk e) selected report_file of
                    Inl x \<Rightarrow> Inl (x, lg)
                  | Inr None \<Rightarrow>
                      Inr \<lparr>sess = s\<lparr>page := ''progress''\<rparr>, files = lg,
                           shown = [ErrorMsg ''Report not found.''], rerun = True\<rparr>
                  | Inr (Some report) \<Rightarrow>
                      if ev = BackClick then
                        (case log_action (pandas e) (now e) name ''Back to Progress'' selected [] [] lg of
                           (lg', err) \<Rightarrow>
                             Inr \<lparr>sess = s\<lparr>page := ''progress'', selected_report_id := None\<rparr>,
                                  files = lg',
                                  shown = [RatingTitle selected] @ sidebar err,
                                  rerun = True\<rparr>)
                      else
                        (case ev of
                           SubmitClick rating comments \<Rightarrow>
                             submit_rating s e lg name selected report_file rating comments
                         | _ \<Rightarrow> Inr \<lparr>sess = s, files = lg, shown = [RatingTitle selected],
                                     rerun = False\<rparr>))))"

text \<open>
  The admin page: its title and the way back. The tables it lists (the log files and the
  roster) are presentation and are left out.
\<close>

definition draw_admin_page :: "event \<Rightarrow> session \<Rightarrow> env \<Rightarrow> logs \<Rightarrow> result" where
  "draw_admin_page ev s e lg =
     (if ev = BackClick then
        Inr \<lparr>sess = s\<lparr>page := ''progress''\<rparr>, files = lg, shown = [Title ''Admin Page''], rerun = True\<rparr>
      else Inr \<lparr>sess = s, files = lg, shown = [Title ''Admin Page''], rerun = False\<rparr>)"

text \<open>
  The router at the end of the script. A browser session that has no state yet
  (\<open>None\<close>) gets the fresh one. \<^verbatim>\<open>st.session_state.get('is_admin')\<close> is false for a
  missing key.
\<close>

definition router :: "event \<Rightarrow> session option \<Rightarrow> env \<Rightarrow> logs \<Rightarrow> result" where
  "router ev state e lg =
     (let s = (case state of None \<Rightarrow> fresh_session | Some s0 \<Rightarrow> s0) in
        if \<not> logged_in s then draw_login_page ev s e lg
        else if page s = ''progress'' then draw_progress_page ev s e lg
        else if page s = ''rating'' then draw_rating_page ev s e lg
        else if page s = ''admin'' \<and> is_admin s = Some True then draw_admin_page ev s e lg
        else Inr \<lparr>sess = s\<lparr>page := ''progress''\<rparr>, files = lg, shown = [], rerun = True\<rparr>)"

text \<open>
  Streamlit runs the script again after \<^verbatim>\<open>st.rerun()\<close>, with no widget pressed, until
  a run ends by itself. The fuel bounds the number of runs; \<open>None\<close> is fuel used up.
\<close>

fun app :: "nat \<Rightarrow> event \<Rightarrow> session option \<Rightarrow> env \<Rightarrow> logs \<Rightarrow> result option" where
  "app 0 ev state e lg = None"
| "app (Suc n) ev state e lg =
     (case router ev state e lg of
        Inl x \<Rightarrow> Some (Inl x)
      | Inr out \<Rightarrow>
          if rerun out then app n NoEvent (Some (sess out)) e (files out)
          else Some (Inr out))"

section \<open>Notions used to state the properties\<close>

text \<open>
  The rows that an append keeps: those that are read from a workbook when the frame read
  has the log columns, none otherwise.
\<close>

definition log_rows :: "excel \<Rightarrow> xlsx \<Rightarrow> val list list" where
  "log_rows x f =
     (case f of
        Workbook df \<Rightarrow> if columns (read_sheet x df) = log_columns then rows (read_sheet x df) else []
      | _ \<Rightarrow> [])"

text \<open>
  \<^verbatim>\<open>next_unrated\<close> in the words of the specification: the first report, in file order,
  whose \<^verbatim>\<open>rating_id\<close> is not in the rated set; \<open>None\<close> when there is none.
\<close>

definition next_unrated :: "report list \<Rightarrow> val set \<Rightarrow> report option" where
  "next_unrated pool rated = List.find (\<lambda>r. get r ''rating_id'' \<notin> Some ` rated) pool"

text \<open>The rating ids that occur in a pool.\<close>

definition pool_ids :: "report list \<Rightarrow> val set" where
  "pool_ids pool = set (List.map_filter (\<lambda>r. get r ''rating_id'') pool)"

section \<open>Sample inputs\<close>

text \<open>
  The reading and writing of sheets for the sample inputs. A text that is a numeral is
  read as the number, an empty text as the missing value and every other cell as it was
  written, which is what pandas does on the sample sheets below (pandas decides by
  column; in these sheets a column that holds a numeral text holds nothing else but
  numbers and empty cells). The log file of a username with a path separator cannot be
  written.
\<close>

definition digit_value :: "char \<Rightarrow> int option" where
  "digit_value c = map_of (zip ''0123456789'' [0, 1, 2, 3, 4, 5, 6, 7, 8, 9]) c"

fun numeral_text :: "string \<Rightarrow> int \<Rightarrow> int option" where
  "numeral_text [] n = Some n"
| "numeral_text (c # cs) n =
     (case digit_value c of None \<Rightarrow> None | Some d \<Rightarrow> numeral_text cs (10 * n + d))"

definition read_cell :: "val \<Rightarrow> val" where
  "read_cell v =
     (case v of
        VStr s \<Rightarrow>
          (if s = [] then VNaN
           else (case numeral_text s 0 of None \<Rightarrow> VStr s | Some n \<Rightarrow> VInt n))
      | _ \<Rightarrow> v)"

definition sample_excel :: excel where
  "sample_excel =
     \<lparr>read_sheet = (\<lambda>df. \<lparr>columns = columns df, rows = map (map read_cell) (rows df)\<rparr>),
      can_write = (\<lambda>username. CHR ''/'' \<notin> set username)\<rparr>"

text \<open>A pool of three reports with numbers as ids, a roster, and sessions of its users.\<close>

definition r1 :: report where
  "r1 = [(''rating_id'', VInt 1), (''report_to_rate'', VStr ''No acute findings.'')]"

definition r2 :: report where
  "r2 = [(''rating_id'', VInt 2), (''report_to_rate'', VStr ''Left pleural effusion.'')]"

definition r3 :: report where
  "r3 = [(''rating_id'', VInt 3), (''report_to_rate'', VStr ''No fracture.'')]"

definition roster :: "user_row list" where
  "roster = [\<lparr>user_name = VStr ''root'', password_str = ''r00t'', admin_cell = Some True\<rparr>,
             \<lparr>user_name = VStr ''alice'', password_str = ''wonder'', admin_cell = Some False\<rparr>]"

definition sample_env :: env where
  "sample_env = \<lparr>pandas = sample_excel, now = ''2024-01-01 10:05:00'', users = Some roster,
     mapping_file = None,
     disk = (\<lambda>p. None)(''rating_reports.jsonl'' := Some [Json r1, Json r2, Json r3])\<rparr>"

definition alice_session :: session where
  "alice_session = \<lparr>logged_in = True, page = ''progress'', username = Some ''alice'',
     is_admin = Some False, selected_report_id = None\<rparr>"

definition rating_session :: session where
  "rating_session = \<lparr>logged_in = True, page = ''rating'', username = Some ''alice'',
     is_admin = Some False, selected_report_id = Some (VInt 1)\<rparr>"

definition admin_session :: session where
  "admin_session = \<lparr>logged_in = True, page = ''admin'', username = Some ''root'',
     is_admin = Some True, selected_report_id = None\<rparr>"

text \<open>
  Logs as the application leaves them: the sheet of \<open>alice_logs\<close> is the one written by a
  login and the submission for report 1.
\<close>

definition no_logs :: logs where
  "no_logs = (\<lambda>u. Absent)"

definition corrupt_logs :: logs where
  "corrupt_logs = (\<lambda>u. Absent)(''alice'' := Corrupt)"

definition alice_logs :: logs where
  "alice_logs = (\<lambda>u. Absent)(''alice'' := Workbook \<lparr>columns = log_columns,
     rows = [[VStr ''2024-01-01 10:00:00'', VStr ''alice'', VStr ''Login Success'', VNaN, VNaN, VNaN],
             [VStr ''2024-01-01 10:01:00'', VStr ''alice'', VStr ''Submit Rating'', VInt 1,
              VStr ''No error'', VStr []]]\<rparr>)"

text \<open>A pool whose reports have texts as ids, and the log that a login alone leaves.\<close>

definition t1 :: report where
  "t1 = [(''rating_id'', VStr ''1''), (''report_to_rate'', VStr ''No acute findings.'')]"

definition t2 :: report where
  "t2 = [(''rating_id'', VStr ''2''), (''report_to_rate'', VStr ''Left pleural effusion.'')]"

definition text_env :: env where
  "text_env = \<lparr>pandas = sample_excel, now = ''2024-01-01 10:05:00'', users = Some roster,
     mapping_file = None,
     disk = (\<lambda>p. None)(''rating_reports.jsonl'' := Some [Json t1, Json t2])\<rparr>"

definition login_logs :: logs where
  "login_logs = (\<lambda>u. Absent)(''alice'' := Workbook \<lparr>columns = log_columns,
     rows = [[VStr ''2024-01-01 10:00:00'', VStr ''alice'', VStr ''Login Success'',
              VStr [], VStr [], VStr []]]\<rparr>)"

text \<open>The log after the login and a submission for the report with the text id 1.\<close>

definition text_id_logs :: logs where
  "text_id_logs = login_logs(''alice'' := Workbook \<lparr>columns = log_columns,
     rows = [[VStr ''2024-01-01 10:00:00'', VStr ''alice'', VStr ''Login Success'', VNaN, VNaN, VNaN],
             [VStr ''2024-01-01 10:05:00'', VStr ''alice'', VStr ''Submit Rating'', VStr ''1'',
              VStr ''No error'', VStr []]]\<rparr>)"

text \<open>The log after a login and a submission with the comment 007.\<close>

definition comment_logs :: logs where
  "comment_logs = (\<lambda>u. Absent)(''alice'' := Workbook \<lparr>columns = log_columns,
     rows = [[VStr ''2024-01-01 10:00:00'', VStr ''alice'', VStr ''Login Success'', VNaN, VNaN, VNaN],
             [VStr ''2024-01-01 10:01:00'', VStr ''alice'', VStr ''Submit Rating'', VInt 1,
              VStr ''Other error'', VStr ''007'']]\<rparr>)"

text \<open>A pool of one report, and a log in which two reports are rated.\<close>

definition shrunk_env :: env where
  "shrunk_env = \<lparr>pandas = sample_excel, now = ''2024-01-02 09:00:00'', users = Some roster,
     mapping_file = None,
     disk = (\<lambda>p. None)(''rating_reports.jsonl'' := Some [Json r1])\<rparr>"

definition two_rated_logs :: logs where
  "two_rated_logs = (\<lambda>u. Absent)(''alice'' := Workbook \<lparr>columns = log_columns,
     rows = [[VStr ''2024-01-01 10:01:00'', VStr ''alice'', VStr ''Submit Rating'', VInt 1,
              VStr ''No error'', VNaN],
             [VStr ''2024-01-01 10:02:00'', VStr ''alice'', VStr ''Submit Rating'', VInt 2,
              VStr ''Negation error'', VStr []]]\<rparr>)"

section \<open>Properties\<close>

subsection \<open>The action log\<close>

lemma set_map_filter:
  "set (List.map_filter f xs) = {y. \<exists>x \<in> set xs. f x = Some y}"
  by (induction xs) (auto split: option.splits)

lemma try_log_Absent: "try_log x name Absent entry = to_excel x name entry"
  by (simp add: try_log_def exists_file_def)

lemma try_log_Corrupt: "try_log x name Corrupt entry = Inl ReadError"
  by (simp add: try_log_def exists_file_def)

lemma try_log_Workbook:
  "try_log x name (Workbook df) entry =
     (if columns (read_sheet x df) \<noteq> log_columns then to_excel x name entry
      else to_excel x name (concat_frames (read_sheet x df) entry))"
  by (simp add: try_log_def exists_file_def)

lemma log_action_file_Corrupt: "log_action_file x name Corrupt entry = (Corrupt, Some ReadError)"
  by (simp add: log_action_file_def try_log_Corrupt)

lemma log_action_file_unwritable:
  "\<not> can_write x name \<Longrightarrow> f \<noteq> Corrupt \<Longrightarrow> log_action_file x name f entry = (f, Some WriteError)"
  by (cases f) (simp_all add: log_action_file_def try_log_Absent try_log_Workbook to_excel_def)

lemma log_action_file_rows:
  "f \<noteq> Corrupt \<Longrightarrow> can_write x name \<Longrightarrow> columns entry = log_columns \<Longrightarrow>
   log_action_file x name f entry =
     (Workbook \<lparr>columns = log_columns, rows = log_rows x f @ rows entry\<rparr>, None)"
  by (cases f)
    (simp_all add: log_action_file_def try_log_Absent try_log_Workbook to_excel_def log_rows_def
      concat_frames_def)

lemma log_action_readable:
  assumes "lg name \<noteq> Corrupt" and "can_write x name"
  shows "log_action x t name a i r c lg =
     (lg(name := Workbook \<lparr>columns = log_columns,
          rows = log_rows x (lg name) @ [[VStr t, VStr name, VStr a, i, VStr r, VStr c]]\<rparr>), None)"
  using log_action_file_rows [OF assms, of "new_log_entry t name a i r c"]
  by (simp add: log_action_def new_log_entry_def)

lemma log_action_Corrupt:
  "lg name = Corrupt \<Longrightarrow> log_action x t name a i r c lg = (lg, Some ReadError)"
  by (simp add: log_action_def log_action_file_Corrupt fun_upd_idem)

lemma pool_ids_iff: "i \<in> pool_ids pool \<longleftrightarrow> (\<exists>r \<in> set pool. get r ''rating_id'' = Some i)"
  by (simp add: pool_ids_def set_map_filter)

subsection \<open>Selecting the next report\<close>

lemma unrated_pred:
  "(case get r ''rating_id'' of None \<Rightarrow> True | Some i \<Rightarrow> i \<notin> rated) = (get r ''rating_id'' \<notin> Some ` rated)"
  by (auto split: option.splits)

lemma reports_to_rate_Nil: "reports_to_rate pool rated = [] \<longleftrightarrow> next_unrated pool rated = None"
  unfolding reports_to_rate_def next_unrated_def unrated_pred
  by (induction pool) auto

lemma reports_to_rate_Cons:
  "reports_to_rate pool rated = r # rest \<Longrightarrow> next_unrated pool rated = Some r"
  unfolding reports_to_rate_def next_unrated_def unrated_pred
  by (induction pool) (auto split: if_splits)

lemma next_unrated_Some:
  "next_unrated pool rated = Some r \<Longrightarrow> \<exists>rest. reports_to_rate pool rated = r # rest"
  unfolding reports_to_rate_def next_unrated_def unrated_pred
  by (induction pool) (auto split: if_splits)

lemma next_unrated_None_iff:
  "next_unrated pool rated = None \<longleftrightarrow> (\<forall>r \<in> set pool. get r ''rating_id'' \<in> Some ` rated)"
  unfolding next_unrated_def by (auto simp: find_None_iff)

lemma find_split:
  "List.find P xs = Some x \<Longrightarrow> \<exists>before after. xs = before @ x # after \<and> P x \<and> (\<forall>p \<in> set before. \<not> P p)"
proof (induction xs)
  case Nil
  then show ?case by simp
next
  case (Cons a xs)
  show ?case
  proof (cases "P a")
    case True
    with Cons.prems have "a = x" by simp
    with True have "a # xs = [] @ x # xs \<and> P x \<and> (\<forall>p \<in> set []. \<not> P p)" by simp
    then show ?thesis by blast
  next
    case False
    with Cons.prems have "List.find P xs = Some x" by simp
    with Cons.IH obtain before after where
      "xs = before @ x # after" "P x" "\<forall>p \<in> set before. \<not> P p" by blast
    with False have "a # xs = (a # before) @ x # after \<and> P x \<and> (\<forall>p \<in> set (a # before). \<not> P p)"
      by simp
    then show ?thesis by blast
  qed
qed

lemma find_append_first:
  "(\<forall>p \<in> set before. \<not> P p) \<Longrightarrow> P x \<Longrightarrow> List.find P (before @ x # after) = Some x"
  by (induction before) simp_all

lemma next_unrated_first:
  "next_unrated pool rated = Some r \<longleftrightarrow>
     (\<exists>before after. pool = before @ r # after \<and> get r ''rating_id'' \<notin> Some ` rated
        \<and> (\<forall>p \<in> set before. get p ''rating_id'' \<in> Some ` rated))"
proof
  assume "next_unrated pool rated = Some r"
  then show "\<exists>before after. pool = before @ r # after \<and> get r ''rating_id'' \<notin> Some ` rated
        \<and> (\<forall>p \<in> set before. get p ''rating_id'' \<in> Some ` rated)"
    unfolding next_unrated_def using find_split [of "\<lambda>r. get r ''rating_id'' \<notin> Some ` rated" pool r]
    by simp
next
  assume "\<exists>before after. pool = before @ r # after \<and> get r ''rating_id'' \<notin> Some ` rated
        \<and> (\<forall>p \<in> set before. get p ''rating_id'' \<in> Some ` rated)"
  then show "next_unrated pool rated = Some r"
    unfolding next_unrated_def by (auto intro!: find_append_first)
qed

lemma item_get: "get r k = Some v \<Longrightarrow> item r k = Inr v"
  by (simp add: item_def get_def)

lemma progress_start:
  assumes "username s = Some name"
    and "load_all_reports (disk e) (Some (get_report_file_for_user (mapping_file e) name)) = Inr pool"
    and "\<forall>r \<in> set pool. get r ''rating_id'' \<noteq> None"
    and "length pool = 0 \<or> card (get_rated_reports (pandas e) lg name) \<le> length pool"
  shows "draw_progress_page StartClick s e lg =
     Inr (case next_unrated pool (get_rated_reports (pandas e) lg name) of
            None \<Rightarrow> \<lparr>sess = s, files = lg,
                      shown = [Title ''Your Progress'',
                               ProgressLine (card (get_rated_reports (pandas e) lg name)) (length pool),
                               SuccessMsg ''You have rated all available reports!''],
                      rerun = False\<rparr>
          | Some r \<Rightarrow> \<lparr>sess = s\<lparr>page := ''rating'', selected_report_id := get r ''rating_id''\<rparr>,
                        files = lg,
                        shown = [Title ''Your Progress'',
                                 ProgressLine (card (get_rated_reports (pandas e) lg name)) (length pool)],
                        rerun = True\<rparr>)"
proof (cases "next_unrated pool (get_rated_reports (pandas e) lg name)")
  case None
  then have "reports_to_rate pool (get_rated_reports (pandas e) lg name) = []"
    by (simp add: reports_to_rate_Nil)
  with None assms show ?thesis
    by (auto simp: draw_progress_page_def Let_def)
next
  case (Some r)
  then obtain rest where rr: "reports_to_rate pool (get_rated_reports (pandas e) lg name) = r # rest"
    using next_unrated_Some by blast
  from Some have "r \<in> set pool"
    by (auto simp: next_unrated_def find_Some_iff)
  with assms(3) obtain i where i: "get r ''rating_id'' = Some i" by auto
  with Some rr assms show ?thesis
    by (auto simp: draw_progress_page_def Let_def item_get)
qed

lemma progress_raises:
  assumes "username s = Some name" and "ev \<noteq> LogoutClick"
    and "load_all_reports (disk e) (Some (get_report_file_for_user (mapping_file e) name)) = Inr pool"
    and "0 < length pool" and "length pool < card (get_rated_reports (pandas e) lg name)"
  shows "draw_progress_page ev s e lg = Inl (StreamlitAPIException, lg)"
  using assms by (simp add: draw_progress_page_def Let_def)

lemma get_report_by_id_found:
  assumes "load_all_reports d (Some file) = Inr pool" and "sel \<in> pool_ids pool"
  shows "\<exists>report. get_report_by_id d sel file = Inr (Some report)"
proof -
  from assms(2) have "List.find (\<lambda>report. get report ''rating_id'' = Some sel) pool \<noteq> None"
    by (auto simp: pool_ids_iff find_None_iff)
  with assms(1) show ?thesis
    by (auto simp: get_report_by_id_def)
qed

lemma submit_rating_next:
  assumes "load_all_reports (disk e) (Some file) = Inr pool"
    and "\<forall>r \<in> set pool. get r ''rating_id'' \<noteq> None"
  shows "submit_rating s e lg name sel file rating comments =
     Inr (case next_unrated pool (insert sel (get_rated_reports (pandas e)
                 (fst (log_action (pandas e) (now e) name ''Submit Rating'' sel rating comments lg)) name)) of
            None \<Rightarrow> \<lparr>sess = s\<lparr>page := ''progress'', selected_report_id := None\<rparr>,
                      files = fst (log_action (pandas e) (now e) name ''Submit Rating'' sel rating comments lg),
                      shown = [RatingTitle sel]
                        @ sidebar (snd (log_action (pandas e) (now e) name ''Submit Rating'' sel rating comments lg))
                        @ [SuccessMsg ''Rating submitted!''],
                      rerun = True\<rparr>
          | Some r \<Rightarrow> \<lparr>sess = s\<lparr>selected_report_id := get r ''rating_id''\<rparr>,
                        files = fst (log_action (pandas e) (now e) name ''Submit Rating'' sel rating comments lg),
                        shown = [RatingTitle sel]
                          @ sidebar (snd (log_action (pandas e) (now e) name ''Submit Rating'' sel rating comments lg))
                          @ [SuccessMsg ''Rating submitted!''],
                        rerun = True\<rparr>)"
proof -
  obtain lg' err where la: "log_action (pandas e) (now e) name ''Submit Rating'' sel rating comments lg = (lg', err)"
    by (cases "log_action (pandas e) (now e) name ''Submit Rating'' sel rating comments lg") auto
  show ?thesis
  proof (cases "next_unrated pool (insert sel (get_rated_reports (pandas e) lg' name))")
    case None
    then have "reports_to_rate pool (insert sel (get_rated_reports (pandas e) lg' name)) = []"
      by (simp add: reports_to_rate_Nil)
    with None assms la show ?thesis
      by (simp add: submit_rating_def Let_def)
  next
    case (Some r)
    then obtain rest where rr: "reports_to_rate pool (insert sel (get_rated_reports (pandas e) lg' name)) = r # rest"
      using next_unrated_Some by blast
    from Some have "r \<in> set pool"
      by (auto simp: next_unrated_def find_Some_iff)
    with assms(2) obtain i where i: "get r ''rating_id'' = Some i" by auto
    with Some rr assms la show ?thesis
      by (simp add: submit_rating_def Let_def item_get)
  qed
qed

lemma rating_submit:
  assumes "username s = Some name" and "selected_report_id s = Some sel"
    and "load_all_reports (disk e) (Some (get_report_file_for_user (mapping_file e) name)) = Inr pool"
    and "sel \<in> pool_ids pool"
  shows "draw_rating_page (SubmitClick rating comments) s e lg =
     submit_rating s e lg name sel (get_report_file_for_user (mapping_file e) name) rating comments"
proof -
  from get_report_by_id_found [OF assms(3,4)] obtain report where
    "get_report_by_id (disk e) sel (get_report_file_for_user (mapping_file e) name) = Inr (Some report)"
    by blast
  with assms(1,2) show ?thesis
    by (simp add: draw_rating_page_def Let_def)
qed

text \<open>
  Claim C1, amended. For a pool whose reports all carry a \<^verbatim>\<open>rating_id\<close>: on the
  progress page, while the rated count does not exceed the total, the report selected
  for rating is the first report in file order whose \<^verbatim>\<open>rating_id\<close> is not in the
  user's rated set, and completion is reported, with no move to the rating page, exactly
  when every report of the pool is in the rated set. On the rating page, after a
  submission, the same selection is made against the rated set read again from the log
  together with the id just submitted, whether or not the log took the entry. The
  selection depends on the log only through the rated set, so two selections with the
  same rated set give the same report.
\<close>

theorem next_report_is_first_unrated:
  assumes "username s = Some name"
    and "load_all_reports (disk e) (Some (get_report_file_for_user (mapping_file e) name)) = Inr pool"
    and "\<forall>r \<in> set pool. get r ''rating_id'' \<noteq> None"
  shows "(length pool = 0 \<or> card (get_rated_reports (pandas e) lg name) \<le> length pool \<longrightarrow>
     draw_progress_page StartClick s e lg =
     Inr (case next_unrated pool (get_rated_reports (pandas e) lg name) of
            None \<Rightarrow> \<lparr>sess = s, files = lg,
                      shown = [Title ''Your Progress'',
                               ProgressLine (card (get_rated_reports (pandas e) lg name)) (length pool),
                               SuccessMsg ''You have rated all available reports!''],
                      rerun = False\<rparr>
          | Some r \<Rightarrow> \<lparr>sess = s\<lparr>page := ''rating'', selected_report_id := get r ''rating_id''\<rparr>,
                        files = lg,
                        shown = [Title ''Your Progress'',
                                 ProgressLine (card (get_rated_reports (pandas e) lg name)) (length pool)],
                        rerun = True\<rparr>))
   \<and> (selected_report_id s = Some sel \<longrightarrow> sel \<in> pool_ids pool \<longrightarrow>
       draw_rating_page (SubmitClick rating comments) s e lg =
       Inr (case next_unrated pool (insert sel (get_rated_reports (pandas e)
                 (fst (log_action (pandas e) (now e) name ''Submit Rating'' sel rating comments lg)) name)) of
            None \<Rightarrow> \<lparr>sess = s\<lparr>page := ''progress'', selected_report_id := None\<rparr>,
                      files = fst (log_action (pandas e) (now e) name ''Submit Rating'' sel rating comments lg),
                      shown = [RatingTitle sel]
                        @ sidebar (snd (log_action (pandas e) (now e) name ''Submit Rating'' sel rating comments lg))
                        @ [SuccessMsg ''Rating submitted!''],
                      rerun = True\<rparr>
          | Some r \<Rightarrow> \<lparr>sess = s\<lparr>selected_report_id := get r ''rating_id''\<rparr>,
                        files = fst (log_action (pandas e) (now e) name ''Submit Rating'' sel rating comments lg),
                        shown = [RatingTitle sel]
                          @ sidebar (snd (log_action (pandas e) (now e) name ''Submit Rating'' sel rating comments lg))
                          @ [SuccessMsg ''Rating submitted!''],
                        rerun = True\<rparr>))
   \<and> (next_unrated pool rated = None \<longleftrightarrow> (\<forall>r \<in> set pool. get r ''rating_id'' \<in> Some ` rated))
   \<and> (next_unrated pool rated = Some r \<longleftrightarrow>
        (\<exists>before after. pool = before @ r # after \<and> get r ''rating_id'' \<notin> Some ` rated
           \<and> (\<forall>p \<in> set before. get p ''rating_id'' \<in> Some ` rated)))
   \<and> (get_rated_reports (pandas e) lg2 name = get_rated_reports (pandas e) lg name \<longrightarrow>
        map_sum fst sess (draw_progress_page StartClick s e lg2)
          = map_sum fst sess (draw_progress_page StartClick s e lg))"
proof -
  have start: "draw_progress_page StartClick s e lg =
     Inr (case next_unrated pool (get_rated_reports (pandas e) lg name) of
            None \<Rightarrow> \<lparr>sess = s, files = lg,
                      shown = [Title ''Your Progress'',
                               ProgressLine (card (get_rated_reports (pandas e) lg name)) (length pool),
                               SuccessMsg ''You have rated all available reports!''],
                      rerun = False\<rparr>
          | Some r \<Rightarrow> \<lparr>sess = s\<lparr>page := ''rating'', selected_report_id := get r ''rating_id''\<rparr>,
                        files = lg,
                        shown = [Title ''Your Progress'',
                                 ProgressLine (card (get_rated_reports (pandas e) lg name)) (length pool)],
                        rerun = True\<rparr>)"
    if "length pool = 0 \<or> card (get_rated_reports (pandas e) lg name) \<le> length pool" for lg
    using assms that by (rule progress_start)
  have stable: "map_sum fst sess (draw_progress_page StartClick s e lg2)
          = map_sum fst sess (draw_progress_page StartClick s e lg)"
    if same: "get_rated_reports (pandas e) lg2 name = get_rated_reports (pandas e) lg name"
  proof (cases "length pool = 0 \<or> card (get_rated_reports (pandas e) lg name) \<le> length pool")
    case True
    with same have "length pool = 0 \<or> card (get_rated_reports (pandas e) lg2 name) \<le> length pool"
      by simp
    from start [OF this] start [OF True] same show ?thesis
      by (simp split: option.splits)
  next
    case False
    then have over: "0 < length pool" "length pool < card (get_rated_reports (pandas e) lg name)"
      by simp_all
    have "draw_progress_page StartClick s e lg = Inl (StreamlitAPIException, lg)"
      using assms(1) _ assms(2) over by (rule progress_raises) simp
    moreover have "draw_progress_page StartClick s e lg2 = Inl (StreamlitAPIException, lg2)"
      using assms(1) _ assms(2) over(1) over(2) [folded same] by (rule progress_raises) simp
    ultimately show ?thesis by simp
  qed
  have submit: "selected_report_id s = Some sel \<Longrightarrow> sel \<in> pool_ids pool \<Longrightarrow>
       draw_rating_page (SubmitClick rating comments) s e lg =
         submit_rating s e lg name sel (get_report_file_for_user (mapping_file e) name) rating comments"
    using assms(1) _ assms(2) by (rule rating_submit)
  show ?thesis
    using start [of lg] stable submit
      submit_rating_next [OF assms(2,3), of s lg name sel rating comments]
      next_unrated_None_iff [of pool rated] next_unrated_first [of pool rated r]
    by presburger
qed

subsection \<open>Sample data\<close>

lemma sample_pool:
  "load_all_reports (disk sample_env) (Some (get_report_file_for_user (mapping_file sample_env) ''alice''))
     = Inr [r1, r2, r3]"
  by (simp add: sample_env_def load_all_reports_def load_reports_def get_report_file_for_user_def)

lemma sample_ids: "\<forall>r \<in> set [r1, r2, r3]. get r ''rating_id'' \<noteq> None"
  by (simp add: r1_def r2_def r3_def get_def)

lemma sample_pandas: "pandas sample_env = sample_excel" "now sample_env = ''2024-01-01 10:05:00''"
  by (simp_all add: sample_env_def)

lemma alice_rated: "get_rated_reports sample_excel alice_logs ''alice'' = {VInt 1}"
  by (simp add: get_rated_reports_def alice_logs_def get_rated_reports_file_def exists_file_def
      sample_excel_def submitted_ids_def log_columns_def cell_def read_cell_def digit_value_def)

lemma alice_after_submit:
  "fst (log_action sample_excel ''2024-01-01 10:05:00'' ''alice'' ''Submit Rating'' (VInt 2)
       ''Other error'' [] alice_logs) ''alice''
     = Workbook \<lparr>columns = log_columns,
         rows = [[VStr ''2024-01-01 10:00:00'', VStr ''alice'', VStr ''Login Success'', VNaN, VNaN, VNaN],
                 [VStr ''2024-01-01 10:01:00'', VStr ''alice'', VStr ''Submit Rating'', VInt 1,
                  VStr ''No error'', VNaN],
                 [VStr ''2024-01-01 10:05:00'', VStr ''alice'', VStr ''Submit Rating'', VInt 2,
                  VStr ''Other error'', VStr []]]\<rparr>"
  by (simp add: log_action_def log_action_file_def try_log_Workbook to_excel_def alice_logs_def
      sample_excel_def concat_frames_def new_log_entry_def log_columns_def read_cell_def
      digit_value_def)

lemma alice_rated_after_submit:
  "get_rated_reports sample_excel (fst (log_action sample_excel ''2024-01-01 10:05:00'' ''alice''
       ''Submit Rating'' (VInt 2) ''Other error'' [] alice_logs)) ''alice'' = {VInt 1, VInt 2}"
  unfolding get_rated_reports_def alice_after_submit
  by (simp add: get_rated_reports_file_def exists_file_def
      sample_excel_def submitted_ids_def log_columns_def cell_def read_cell_def digit_value_def)

text \<open>
  Claim C1, amended, at the pool of three reports with report 1 rated: the progress page
  selects report 2, and submitting report 2 selects report 3.
\<close>

theorem next_report_is_first_unrated_witness:
  "draw_progress_page StartClick alice_session sample_env alice_logs =
     Inr \<lparr>sess = alice_session\<lparr>page := ''rating'', selected_report_id := Some (VInt 2)\<rparr>,
          files = alice_logs, shown = [Title ''Your Progress'', ProgressLine 1 3], rerun = True\<rparr>
   \<and> sess (projr (draw_rating_page (SubmitClick ''Other error'' [])
        (alice_session\<lparr>page := ''rating'', selected_report_id := Some (VInt 2)\<rparr>) sample_env alice_logs))
     = alice_session\<lparr>page := ''rating'', selected_report_id := Some (VInt 3)\<rparr>"
proof -
  have u: "username alice_session = Some ''alice''" by (simp add: alice_session_def)
  have u': "username (alice_session\<lparr>page := ''rating'', selected_report_id := Some (VInt 2)\<rparr>) = Some ''alice''"
    by (simp add: alice_session_def)
  have n1: "next_unrated [r1, r2, r3] (get_rated_reports sample_excel alice_logs ''alice'') = Some r2"
    by (simp add: alice_rated next_unrated_def r1_def r2_def get_def)
  have n2: "next_unrated [r1, r2, r3] (insert (VInt 2) (get_rated_reports sample_excel (fst (log_action
       sample_excel ''2024-01-01 10:05:00'' ''alice'' ''Submit Rating'' (VInt 2) ''Other error'' []
       alice_logs)) ''alice'')) = Some r3"
    by (simp add: alice_rated_after_submit next_unrated_def r1_def r2_def r3_def get_def)
  have ids: "get r2 ''rating_id'' = Some (VInt 2)" "get r3 ''rating_id'' = Some (VInt 3)"
    by (simp_all add: r2_def r3_def get_def)
  have in_pool: "VInt 2 \<in> pool_ids [r1, r2, r3]"
    by (simp add: pool_ids_def r1_def r2_def r3_def get_def)
  have c: "card (get_rated_reports sample_excel alice_logs ''alice'') = 1"
    by (simp add: alice_rated)
  show ?thesis
    using next_report_is_first_unrated [OF u sample_pool sample_ids, where lg = alice_logs]
      next_report_is_first_unrated [OF u' sample_pool sample_ids, where lg = alice_logs
        and sel = "VInt 2" and rating = "''Other error''" and comments = "[]"]
      in_pool
    by (simp add: sample_pandas n1 n2 ids c)
qed

text \<open>
  Claim C1 as stated fails on the rating page when the log cannot be read: the
  submission of report 1 is not recorded (the sidebar shows the log error) and the rated
  set stays empty, so the first report not in the rated set is report 1, yet report 2 is
  selected.
\<close>

theorem next_report_counterexample:
  "draw_rating_page (SubmitClick ''No error'' []) rating_session sample_env corrupt_logs =
     Inr \<lparr>sess = rating_session\<lparr>selected_report_id := Some (VInt 2)\<rparr>, files = corrupt_logs,
          shown = [RatingTitle (VInt 1), SidebarError ReadError, SuccessMsg ''Rating submitted!''],
          rerun = True\<rparr>
   \<and> get_rated_reports (pandas sample_env) corrupt_logs ''alice'' = {}
   \<and> next_unrated [r1, r2, r3] (get_rated_reports (pandas sample_env) corrupt_logs ''alice'') = Some r1
   \<and> get r1 ''rating_id'' = Some (VInt 1)"
proof -
  have c: "corrupt_logs ''alice'' = Corrupt" by (simp add: corrupt_logs_def)
  have g: "get_rated_reports (pandas sample_env) corrupt_logs ''alice'' = {}"
    by (simp add: get_rated_reports_def c get_rated_reports_file_def exists_file_def)
  have u: "username rating_session = Some ''alice''" "selected_report_id rating_session = Some (VInt 1)"
    by (simp_all add: rating_session_def)
  show ?thesis
    by (simp add: draw_rating_page_def submit_rating_def u sample_pool g log_action_Corrupt [where lg = corrupt_logs and name = "''alice''", OF c]
        get_report_by_id_def reports_to_rate_def next_unrated_def
        r1_def r2_def r3_def get_def item_def Let_def sidebar_def)
qed

subsection \<open>What is read back from the log\<close>

lemma text_submit:
  "log_action sample_excel ''2024-01-01 10:05:00'' ''alice'' ''Submit Rating'' (VStr ''1'')
       ''No error'' [] login_logs = (text_id_logs, None)"
  by (simp add: log_action_def log_action_file_def try_log_Workbook to_excel_def login_logs_def
      text_id_logs_def sample_excel_def concat_frames_def new_log_entry_def log_columns_def
      read_cell_def digit_value_def)

lemma text_rated: "get_rated_reports sample_excel text_id_logs ''alice'' = {VInt 1}"
  by (simp add: get_rated_reports_def text_id_logs_def get_rated_reports_file_def exists_file_def
      sample_excel_def submitted_ids_def log_columns_def cell_def read_cell_def digit_value_def)

text \<open>
  Claim C2 at an input where the code fails it. A user whose log holds the login entry
  submits a rating for the report with the text id 1. The entry is written without a log
  error, with the id as text; read back, the id is the number 1. The rated set is then
  the set of that number: it is not the set of the report ids of the
  \<^verbatim>\<open>Submit Rating\<close> entries, and the id submitted is not in it.
\<close>

theorem rated_set_misses_text_id:
  "log_action sample_excel ''2024-01-01 10:05:00'' ''alice'' ''Submit Rating'' (VStr ''1'')
       ''No error'' [] login_logs = (text_id_logs, None)
   \<and> get_rated_reports sample_excel text_id_logs ''alice'' = {VInt 1}
   \<and> VStr ''1'' \<notin> get_rated_reports sample_excel text_id_logs ''alice''"
  by (simp add: text_submit text_rated)

text \<open>
  Claim C3 at an input where the code fails it. The submission for the report with the
  text id 1 is recorded without a log error, and the progress page afterwards selects
  that very report again.
\<close>

theorem rated_report_selected_again:
  "snd (log_action (pandas text_env) (now text_env) ''alice'' ''Submit Rating'' (VStr ''1'')
       ''No error'' [] login_logs) = None
   \<and> fst (log_action (pandas text_env) (now text_env) ''alice'' ''Submit Rating'' (VStr ''1'')
       ''No error'' [] login_logs) = text_id_logs
   \<and> draw_progress_page StartClick alice_session text_env text_id_logs =
       Inr \<lparr>sess = alice_session\<lparr>page := ''rating'', selected_report_id := Some (VStr ''1'')\<rparr>,
            files = text_id_logs, shown = [Title ''Your Progress'', ProgressLine 1 2],
            rerun = True\<rparr>"
proof -
  have e: "pandas text_env = sample_excel" "now text_env = ''2024-01-01 10:05:00''"
    by (simp_all add: text_env_def)
  have p: "load_all_reports (disk text_env) (Some (get_report_file_for_user (mapping_file text_env) ''alice''))
      = Inr [t1, t2]"
    by (simp add: text_env_def load_all_reports_def load_reports_def get_report_file_for_user_def)
  have u: "username alice_session = Some ''alice''" by (simp add: alice_session_def)
  show ?thesis
    by (simp add: e text_submit draw_progress_page_def u p text_rated Let_def reports_to_rate_def
        t1_def t2_def get_def item_def)
qed

text \<open>
  Claim C6 at an input where the code fails it. The log has the log columns and holds a
  submission with the comment 007. The next append writes the sheet from what was read:
  the earlier entry now holds the number 7 where the text was.
\<close>

theorem append_retypes_old_entry:
  "columns (read_sheet sample_excel \<lparr>columns = log_columns,
      rows = [[VStr ''2024-01-01 10:00:00'', VStr ''alice'', VStr ''Login Success'', VNaN, VNaN, VNaN],
              [VStr ''2024-01-01 10:01:00'', VStr ''alice'', VStr ''Submit Rating'', VInt 1,
               VStr ''Other error'', VStr ''007'']]\<rparr>) = log_columns
   \<and> log_action sample_excel ''2024-01-01 10:05:00'' ''alice'' ''Logout'' (VStr []) [] [] comment_logs =
       (comment_logs(''alice'' := Workbook \<lparr>columns = log_columns,
          rows = [[VStr ''2024-01-01 10:00:00'', VStr ''alice'', VStr ''Login Success'', VNaN, VNaN, VNaN],
                  [VStr ''2024-01-01 10:01:00'', VStr ''alice'', VStr ''Submit Rating'', VInt 1,
                   VStr ''Other error'', VInt 7],
                  [VStr ''2024-01-01 10:05:00'', VStr ''alice'', VStr ''Logout'',
                   VStr [], VStr [], VStr []]]\<rparr>), None)
   \<and> VInt 7 \<noteq> VStr ''007''"
  by (simp add: log_action_def log_action_file_def try_log_Workbook to_excel_def comment_logs_def
      sample_excel_def concat_frames_def new_log_entry_def log_columns_def
      read_cell_def digit_value_def)

text \<open>
  Claim C4 at an input where the code fails it. With two rated ids in the log and a pool
  of one report the rated count is 2 and the total is 1, and the progress page raises at
  the progress bar.
\<close>

theorem progress_page_raises_over_total:
  "get_rated_reports (pandas shrunk_env) two_rated_logs ''alice'' = {VInt 1, VInt 2}
   \<and> load_all_reports (disk shrunk_env)
        (Some (get_report_file_for_user (mapping_file shrunk_env) ''alice'')) = Inr [r1]
   \<and> draw_progress_page NoEvent alice_session shrunk_env two_rated_logs =
       Inl (StreamlitAPIException, two_rated_logs)"
proof -
  have g: "get_rated_reports (pandas shrunk_env) two_rated_logs ''alice'' = {VInt 1, VInt 2}"
    by (simp add: shrunk_env_def get_rated_reports_def two_rated_logs_def get_rated_reports_file_def
        exists_file_def sample_excel_def submitted_ids_def log_columns_def cell_def read_cell_def
        digit_value_def)
  have p: "load_all_reports (disk shrunk_env)
        (Some (get_report_file_for_user (mapping_file shrunk_env) ''alice'')) = Inr [r1]"
    by (simp add: shrunk_env_def load_all_reports_def load_reports_def get_report_file_for_user_def)
  have u: "username alice_session = Some ''alice''" by (simp add: alice_session_def)
  show ?thesis
    by (simp add: g p draw_progress_page_def u Let_def)
qed

subsection \<open>A log that cannot be used\<close>

text \<open>
  Claim C10. \<^verbatim>\<open>get_rated_reports\<close> returns a set and never an error. When the log file
  does not exist, when reading it raises, or when selecting its columns raises, the set
  is empty, and the progress page then shows zero rated reports instead of failing.
\<close>

theorem rated_set_empty_on_failure:
  assumes "\<not> exists_file (lg name) \<or> (\<exists>x. read_excel (pandas e) (lg name) = Inl x)
           \<or> (\<exists>df x. read_excel (pandas e) (lg name) = Inr df \<and> submitted_ids df = Inl x)"
    and "username s = Some name"
    and "load_all_reports (disk e) (Some (get_report_file_for_user (mapping_file e) name)) = Inr pool"
  shows "get_rated_reports (pandas e) lg name = {}
       \<and> draw_progress_page NoEvent s e lg =
           Inr \<lparr>sess = s, files = lg,
                shown = [Title ''Your Progress'', ProgressLine 0 (length pool)], rerun = False\<rparr>"
proof -
  from assms(1) have "get_rated_reports (pandas e) lg name = {}"
    by (auto simp: get_rated_reports_def get_rated_reports_file_def)
  with assms(2,3) show ?thesis
    by (simp add: draw_progress_page_def Let_def)
qed

text \<open>Claim C10 at a log file that cannot be read.\<close>

theorem rated_set_empty_on_failure_witness:
  "get_rated_reports (pandas sample_env) corrupt_logs ''alice'' = {}
   \<and> draw_progress_page NoEvent alice_session sample_env corrupt_logs =
       Inr \<lparr>sess = alice_session, files = corrupt_logs,
            shown = [Title ''Your Progress'', ProgressLine 0 3], rerun = False\<rparr>"
proof -
  have c: "\<not> exists_file (corrupt_logs ''alice'')
      \<or> (\<exists>x. read_excel (pandas sample_env) (corrupt_logs ''alice'') = Inl x)
      \<or> (\<exists>df x. read_excel (pandas sample_env) (corrupt_logs ''alice'') = Inr df
            \<and> submitted_ids df = Inl x)"
    by (simp add: corrupt_logs_def)
  have u: "username alice_session = Some ''alice''" by (simp add: alice_session_def)
  show ?thesis
    using rated_set_empty_on_failure [where lg = corrupt_logs and name = "''alice''"
        and e = sample_env, OF c u sample_pool]
    by simp
qed

subsection \<open>Assignment of users to report files\<close>

lemma walk_mapping_unlisted:
  "\<forall>(report_file, members) \<in> set mapping. name \<notin> set members \<Longrightarrow>
   walk_mapping mapping name = ''rating_reports.jsonl''"
  by (induction mapping) auto

lemma walk_mapping_first:
  "\<forall>(g, others) \<in> set before. name \<notin> set others \<Longrightarrow> name \<in> set members \<Longrightarrow>
   walk_mapping (before @ (report_file, members) # after) name = report_file"
  by (induction before) auto

text \<open>
  Claim C5. \<^verbatim>\<open>get_report_file_for_user\<close> is a total function of the mapping and the
  username, so it never fails and gives the same file for the same arguments. Without a
  mapping file, and for a username listed under no report file, it returns the default
  \<^verbatim>\<open>rating_reports.jsonl\<close>; otherwise it returns the first report file, in mapping order,
  whose user list contains the username.
\<close>

theorem resolve_first_match_or_default:
  "get_report_file_for_user None name = ''rating_reports.jsonl''
   \<and> ((\<forall>(report_file, members) \<in> set mapping. name \<notin> set members) \<longrightarrow>
        get_report_file_for_user (Some mapping) name = ''rating_reports.jsonl'')
   \<and> ((\<forall>(g, others) \<in> set before. name \<notin> set others) \<longrightarrow> name \<in> set members \<longrightarrow>
        get_report_file_for_user (Some (before @ (report_file, members) # after)) name = report_file)"
  by (simp add: get_report_file_for_user_def walk_mapping_unlisted walk_mapping_first)

text \<open>Claim C5 at an unlisted user and at a user listed under two report files.\<close>

theorem resolve_first_match_or_default_witness:
  "get_report_file_for_user None ''carol'' = ''rating_reports.jsonl''
   \<and> get_report_file_for_user (Some [(''pool_a.jsonl'', [''alice'', ''bob'']), (''pool_b.jsonl'', [''bob''])])
        ''carol'' = ''rating_reports.jsonl''
   \<and> get_report_file_for_user (Some [(''pool_a.jsonl'', [''alice'']), (''pool_b.jsonl'', [''bob'']),
        (''pool_c.jsonl'', [''bob''])]) ''bob'' = ''pool_b.jsonl''"
  using resolve_first_match_or_default [of "''carol''"
          "[(''pool_a.jsonl'', [''alice'', ''bob'']), (''pool_b.jsonl'', [''bob''])]"
          "[]" "[]" "[]" "[]"]
        resolve_first_match_or_default [of "''bob''" "[]"
          "[(''pool_a.jsonl'', [''alice''])]" "[''bob'']" "''pool_b.jsonl''"
          "[(''pool_c.jsonl'', [''bob''])]"]
  by simp

subsection \<open>Loading a report file\<close>

lemma read_lines_length:
  "read_lines ls acc = Inr rs \<Longrightarrow> length rs = length acc + length ls"
  by (induction ls arbitrary: acc) (auto split: sum.splits)

text \<open>
  Claim C8 as stated fails: loading a missing report file does not fail, it returns the
  empty list, the very result of loading a file that exists and is empty.
\<close>

theorem missing_pool_counterexample:
  "load_reports None = Inr [] \<and> load_reports None = load_reports (Some [])"
  by (simp add: load_reports_def)

text \<open>
  Claim C8, amended. \<^verbatim>\<open>load_reports\<close> returns the empty list exactly for a missing file
  and for a file without lines, so the two cannot be told apart, and the only error it
  ever raises is that of a line that does not parse.
\<close>

theorem missing_pool_loads_empty:
  "(load_reports file = Inr [] \<longleftrightarrow> file = None \<or> file = Some [])
   \<and> (\<forall>x. load_reports file = Inl x \<longrightarrow> x = JSONDecodeError)"
proof -
  have "ls = []" if "read_lines ls [] = Inr []" for ls
    using read_lines_length [OF that] by simp
  then have a: "load_reports file = Inr [] \<longleftrightarrow> file = None \<or> file = Some []"
    by (auto simp: load_reports_def split: option.splits)
  have "x = JSONDecodeError" if "read_lines ls acc = Inl x" for ls acc x
    using that
  proof (induction ls arbitrary: acc)
    case Nil
    then show ?case by simp
  next
    case (Cons l ls)
    then show ?case by (cases l) (auto split: sum.splits)
  qed
  then have "\<forall>x. load_reports file = Inl x \<longrightarrow> x = JSONDecodeError"
    by (auto simp: load_reports_def split: option.splits)
  with a show ?thesis by simp
qed

text \<open>Claim C8, amended, at a missing, an empty, a one-line and a malformed file.\<close>

theorem missing_pool_loads_empty_witness:
  "load_reports None = Inr [] \<and> load_reports (Some []) = Inr []
   \<and> load_reports (Some [Json r1]) \<noteq> Inr []
   \<and> load_reports (Some [Json r1, Garbage]) = Inl JSONDecodeError"
  using missing_pool_loads_empty [of None] missing_pool_loads_empty [of "Some []"]
    missing_pool_loads_empty [of "Some [Json r1]"] missing_pool_loads_empty [of "Some [Json r1, Garbage]"]
  by (simp add: load_reports_def)

subsection \<open>The router\<close>

lemma progress_no_rerun: "draw_progress_page NoEvent s e lg = Inr out \<Longrightarrow> \<not> rerun out"
  by (auto simp: draw_progress_page_def Let_def split: option.splits sum.splits if_splits)

lemma app_progress:
  assumes "logged_in s" and "page s = ''progress''"
  shows "app (Suc n) NoEvent (Some s) e lg = Some (draw_progress_page NoEvent s e lg)"
proof (cases "draw_progress_page NoEvent s e lg")
  case (Inl x)
  with assms show ?thesis by (simp add: router_def)
next
  case (Inr out)
  then have "\<not> rerun out" by (rule progress_no_rerun)
  with Inr assms show ?thesis by (simp add: router_def)
qed

lemma no_admin_title:
  assumes "is_admin s \<noteq> Some True" and "logged_in s \<or> ev = NoEvent"
    and "router ev (Some s) e lg = Inr out"
  shows "Title ''Admin Page'' \<notin> set (shown out) \<and> is_admin (sess out) \<noteq> Some True
       \<and> (logged_in s \<longrightarrow> page (sess out) \<noteq> ''admin'')"
proof (cases "logged_in s")
  case False
  with assms show ?thesis
    by (auto simp: router_def draw_login_page_def split: option.splits)
next
  case True
  consider "page s = ''progress''" | "page s = ''rating''"
    | "page s \<noteq> ''progress''" "page s \<noteq> ''rating''" by blast
  then show ?thesis
  proof cases
    case 1
    with True assms(3) have "draw_progress_page ev s e lg = Inr out" by (simp add: router_def)
    with assms(1) 1 show ?thesis
      by (auto simp: draw_progress_page_def Let_def sidebar_def
          split: option.splits sum.splits if_splits list.splits prod.splits)
  next
    case 2
    with True assms(3) have "draw_rating_page ev s e lg = Inr out" by (simp add: router_def)
    with assms(1) 2 show ?thesis
      by (auto simp: draw_rating_page_def submit_rating_def Let_def sidebar_def
          split: option.splits sum.splits if_splits list.splits prod.splits event.splits)
  next
    case 3
    with True assms(1,3) show ?thesis
      by (auto simp: router_def)
  qed
qed

lemma app_no_admin_title:
  "is_admin s \<noteq> Some True \<Longrightarrow> logged_in s \<or> ev = NoEvent \<Longrightarrow>
   app k ev (Some s) e lg = Some (Inr out) \<Longrightarrow> Title ''Admin Page'' \<notin> set (shown out)"
proof (induction k arbitrary: ev s lg)
  case 0
  then show ?case by simp
next
  case (Suc k)
  from Suc.prems(3) obtain mid where mid: "router ev (Some s) e lg = Inr mid"
    by (cases "router ev (Some s) e lg") auto
  from no_admin_title [OF Suc.prems(1,2) mid]
  have quiet: "Title ''Admin Page'' \<notin> set (shown mid)" and flag: "is_admin (sess mid) \<noteq> Some True"
    by simp_all
  show ?case
  proof (cases "rerun mid")
    case True
    with Suc.prems(3) mid have "app k NoEvent (Some (sess mid)) e (files mid) = Some (Inr out)"
      by simp
    with flag show ?thesis by (intro Suc.IH [of "sess mid" NoEvent "files mid"]) simp_all
  next
    case False
    with Suc.prems(3) mid quiet show ?thesis by simp
  qed
qed

text \<open>
  Claim C7. For a logged-in session whose \<^verbatim>\<open>is_admin\<close> is not true: a run of the
  script with the page set to \<^verbatim>\<open>admin\<close> draws nothing, raises no error, sets the page
  to \<^verbatim>\<open>progress\<close> and reruns, and the rerun draws the progress page; no run of the
  script, whatever the event and the page, draws the admin page, leaves the page set to
  \<^verbatim>\<open>admin\<close> or turns \<^verbatim>\<open>is_admin\<close> on. For a logged-in session whose \<^verbatim>\<open>is_admin\<close>
  is true and whose page is \<^verbatim>\<open>admin\<close>, the admin page is drawn.
\<close>

theorem admin_page_guarded:
  assumes "logged_in s"
  shows "(is_admin s \<noteq> Some True \<longrightarrow>
            (page s = ''admin'' \<longrightarrow>
               router ev (Some s) e lg =
                 Inr \<lparr>sess = s\<lparr>page := ''progress''\<rparr>, files = lg, shown = [], rerun = True\<rparr>
               \<and> app (Suc (Suc n)) ev (Some s) e lg =
                   Some (draw_progress_page NoEvent (s\<lparr>page := ''progress''\<rparr>) e lg))
          \<and> (\<forall>out. router ev (Some s) e lg = Inr out \<longrightarrow>
                Title ''Admin Page'' \<notin> set (shown out) \<and> page (sess out) \<noteq> ''admin''
                \<and> is_admin (sess out) \<noteq> Some True)
          \<and> (\<forall>k out. app k ev (Some s) e lg = Some (Inr out) \<longrightarrow>
                Title ''Admin Page'' \<notin> set (shown out)))
       \<and> (is_admin s = Some True \<longrightarrow> page s = ''admin'' \<longrightarrow>
            router NoEvent (Some s) e lg =
              Inr \<lparr>sess = s, files = lg, shown = [Title ''Admin Page''], rerun = False\<rparr>)"
proof -
  have refuse: "router ev (Some s) e lg =
      Inr \<lparr>sess = s\<lparr>page := ''progress''\<rparr>, files = lg, shown = [], rerun = True\<rparr>"
    if "is_admin s \<noteq> Some True" "page s = ''admin''"
    using that assms by (simp add: router_def)
  have routed: "app (Suc (Suc n)) ev (Some s) e lg =
      Some (draw_progress_page NoEvent (s\<lparr>page := ''progress''\<rparr>) e lg)"
    if "is_admin s \<noteq> Some True" "page s = ''admin''"
  proof -
    have "app (Suc n) NoEvent (Some (s\<lparr>page := ''progress''\<rparr>)) e lg =
        Some (draw_progress_page NoEvent (s\<lparr>page := ''progress''\<rparr>) e lg)"
      using assms by (intro app_progress) simp_all
    with refuse [OF that] show ?thesis by simp
  qed
  have never: "Title ''Admin Page'' \<notin> set (shown out) \<and> page (sess out) \<noteq> ''admin''
        \<and> is_admin (sess out) \<noteq> Some True"
    if "is_admin s \<noteq> Some True" "router ev (Some s) e lg = Inr out" for out
    using no_admin_title [OF that(1) _ that(2)] assms by simp
  have settled: "Title ''Admin Page'' \<notin> set (shown out)"
    if "is_admin s \<noteq> Some True" "app k ev (Some s) e lg = Some (Inr out)" for k out
    using app_no_admin_title [OF that(1) _ that(2)] assms by simp
  have grant: "router NoEvent (Some s) e lg =
      Inr \<lparr>sess = s, files = lg, shown = [Title ''Admin Page''], rerun = False\<rparr>"
    if "is_admin s = Some True" "page s = ''admin''"
    using that assms by (simp add: router_def draw_admin_page_def)
  show ?thesis
    using refuse routed never settled grant by blast
qed

text \<open>Claim C7 at a session of a plain user and at a session of an administrator.\<close>

theorem admin_page_guarded_witness:
  "logged_in (alice_session\<lparr>page := ''admin''\<rparr>)
   \<and> router NoEvent (Some (alice_session\<lparr>page := ''admin''\<rparr>)) sample_env no_logs =
       Inr \<lparr>sess = alice_session, files = no_logs, shown = [], rerun = True\<rparr>
   \<and> app (Suc (Suc 0)) NoEvent (Some (alice_session\<lparr>page := ''admin''\<rparr>)) sample_env no_logs =
       Some (Inr \<lparr>sess = alice_session, files = no_logs,
                  shown = [Title ''Your Progress'', ProgressLine 0 3], rerun = False\<rparr>)
   \<and> router NoEvent (Some admin_session) sample_env no_logs =
       Inr \<lparr>sess = admin_session, files = no_logs, shown = [Title ''Admin Page''], rerun = False\<rparr>"
proof -
  have l: "logged_in (alice_session\<lparr>page := ''admin''\<rparr>)" "logged_in admin_session"
    by (simp_all add: alice_session_def admin_session_def)
  have na: "is_admin (alice_session\<lparr>page := ''admin''\<rparr>) \<noteq> Some True"
    "page (alice_session\<lparr>page := ''admin''\<rparr>) = ''admin''"
    by (simp_all add: alice_session_def)
  have ad: "is_admin admin_session = Some True" "page admin_session = ''admin''"
    by (simp_all add: admin_session_def)
  have p: "alice_session\<lparr>page := ''admin'', page := ''progress''\<rparr> = alice_session"
    by (simp add: alice_session_def)
  have d: "draw_progress_page NoEvent alice_session sample_env no_logs =
      Inr \<lparr>sess = alice_session, files = no_logs,
           shown = [Title ''Your Progress'', ProgressLine 0 3], rerun = False\<rparr>"
  proof -
    have u: "username alice_session = Some ''alice''" by (simp add: alice_session_def)
    have g: "get_rated_reports (pandas sample_env) no_logs ''alice'' = {}"
      by (simp add: get_rated_reports_def get_rated_reports_file_def exists_file_def no_logs_def)
    show ?thesis by (simp add: draw_progress_page_def u sample_pool g Let_def)
  qed
  from admin_page_guarded [OF l(1), of NoEvent sample_env no_logs 0] na
  have g1: "router NoEvent (Some (alice_session\<lparr>page := ''admin''\<rparr>)) sample_env no_logs =
      Inr \<lparr>sess = alice_session\<lparr>page := ''admin'', page := ''progress''\<rparr>, files = no_logs,
           shown = [], rerun = True\<rparr>"
    and g2: "app (Suc (Suc 0)) NoEvent (Some (alice_session\<lparr>page := ''admin''\<rparr>)) sample_env no_logs =
      Some (draw_progress_page NoEvent (alice_session\<lparr>page := ''admin'', page := ''progress''\<rparr>)
        sample_env no_logs)"
    by blast+
  from admin_page_guarded [OF l(2), of NoEvent sample_env no_logs 0] ad
  have g3: "router NoEvent (Some admin_session) sample_env no_logs =
       Inr \<lparr>sess = admin_session, files = no_logs, shown = [Title ''Admin Page''], rerun = False\<rparr>"
    by blast
  from l(1) g1 [unfolded p] g2 [unfolded p d] g3 show ?thesis by blast
qed

lemma rerun_without_event_Some:
  assumes "router NoEvent (Some s) e lg = Inr out" and "rerun out"
  shows "logged_in (sess out) \<and> page (sess out) = ''progress''"
proof (cases "logged_in s")
  case False
  with assms show ?thesis
    by (auto simp: router_def draw_login_page_def split: option.splits)
next
  case True
  consider "page s = ''progress''" | "page s = ''rating''"
    | "page s \<noteq> ''progress''" "page s \<noteq> ''rating''" by blast
  then show ?thesis
  proof cases
    case 1
    with True assms have "draw_progress_page NoEvent s e lg = Inr out" by (simp add: router_def)
    with assms(2) show ?thesis by (simp add: progress_no_rerun)
  next
    case 2
    with True assms have "draw_rating_page NoEvent s e lg = Inr out" by (simp add: router_def)
    with assms(2) True show ?thesis
      by (auto simp: draw_rating_page_def Let_def split: option.splits sum.splits)
  next
    case 3
    with True assms show ?thesis
      by (auto simp: router_def draw_admin_page_def split: if_splits)
  qed
qed

lemma router_fresh: "router ev None e lg = router ev (Some fresh_session) e lg"
  by (simp add: router_def)

lemma rerun_without_event:
  assumes "router NoEvent state e lg = Inr out" and "rerun out"
  shows "logged_in (sess out) \<and> page (sess out) = ''progress''"
proof (cases state)
  case None
  with assms show ?thesis by (auto simp: router_fresh dest: rerun_without_event_Some)
next
  case (Some s)
  with assms show ?thesis by (auto dest: rerun_without_event_Some)
qed

text \<open>Three runs of the script always suffice: the chain of reruns ends.\<close>

lemma app_settles: "\<exists>result. app (Suc (Suc (Suc n))) ev state e lg = Some result"
proof (cases "router ev state e lg")
  case (Inl x)
  then show ?thesis by simp
next
  case first: (Inr out)
  show ?thesis
  proof (cases "rerun out")
    case False
    with first show ?thesis by simp
  next
    case True
    show ?thesis
    proof (cases "router NoEvent (Some (sess out)) e (files out)")
      case (Inl x)
      with first True show ?thesis by simp
    next
      case second: (Inr out')
      show ?thesis
      proof (cases "rerun out'")
        case False
        with first True second show ?thesis by simp
      next
        case again: True
        from rerun_without_event [OF second again]
        have "app (Suc n) NoEvent (Some (sess out')) e (files out') =
            Some (draw_progress_page NoEvent (sess out') e (files out'))"
          by (intro app_progress) simp_all
        with first True second again show ?thesis by simp
      qed
    qed
  qed
qed

text \<open>
  Claim C9, amended. For a login attempt in a session that is not logged in, with the
  roster loaded and the log file of the typed username absent or readable, and writable:
  a successful attempt writes a \<^verbatim>\<open>Login Success\<close> entry as the last entry of that log,
  after the rows read from it, logs the session in and moves it to the progress page,
  which the rerun draws; a failed attempt (no such user, or a wrong password) shows the
  error and leaves the session as it was, and it writes a \<^verbatim>\<open>Login Fail\<close> entry as the
  last entry of the log of the typed username exactly when that username is not empty.
\<close>

theorem login_attempt:
  assumes "\<not> logged_in s" and "users e = Some users_df" and "lg name \<noteq> Corrupt"
    and "can_write (pandas e) name"
  shows "(\<forall>row rest. filter (\<lambda>row. user_name row = VStr name) users_df = row # rest \<longrightarrow>
            password_str row = password \<longrightarrow>
            router (LoginSubmit name password) (Some s) e lg =
              Inr \<lparr>sess = s\<lparr>logged_in := True, username := Some name,
                           is_admin := Some (case admin_cell row of None \<Rightarrow> False | Some b \<Rightarrow> b),
                           page := ''progress''\<rparr>,
                   files = lg(name := Workbook \<lparr>columns = log_columns,
                     rows = log_rows (pandas e) (lg name) @
                       [[VStr (now e), VStr name, VStr ''Login Success'', VStr [], VStr [], VStr []]]\<rparr>),
                   shown = [Title ''MetaRate Login''], rerun = True\<rparr>
          \<and> app (Suc (Suc n)) (LoginSubmit name password) (Some s) e lg =
              Some (draw_progress_page NoEvent
                (s\<lparr>logged_in := True, username := Some name,
                   is_admin := Some (case admin_cell row of None \<Rightarrow> False | Some b \<Rightarrow> b),
                   page := ''progress''\<rparr>) e
                (lg(name := Workbook \<lparr>columns = log_columns,
                     rows = log_rows (pandas e) (lg name) @
                       [[VStr (now e), VStr name, VStr ''Login Success'', VStr [], VStr [], VStr []]]\<rparr>))))
       \<and> (filter (\<lambda>row. user_name row = VStr name) users_df = []
            \<or> (\<exists>row rest. filter (\<lambda>row. user_name row = VStr name) users_df = row # rest
                  \<and> password_str row \<noteq> password) \<longrightarrow>
            router (LoginSubmit name password) (Some s) e lg =
              Inr \<lparr>sess = s,
                   files = (if name = [] then lg
                            else lg(name := Workbook \<lparr>columns = log_columns,
                              rows = log_rows (pandas e) (lg name) @
                                [[VStr (now e), VStr name, VStr ''Login Fail'', VStr [], VStr [], VStr []]]\<rparr>)),
                   shown = [Title ''MetaRate Login'', ErrorMsg ''Invalid username or password''],
                   rerun = False\<rparr>)"
proof -
  note la = log_action_readable [where lg = lg and name = name, OF assms(3,4)]
  have success: "router (LoginSubmit name password) (Some s) e lg =
              Inr \<lparr>sess = s\<lparr>logged_in := True, username := Some name,
                           is_admin := Some (case admin_cell row of None \<Rightarrow> False | Some b \<Rightarrow> b),
                           page := ''progress''\<rparr>,
                   files = lg(name := Workbook \<lparr>columns = log_columns,
                     rows = log_rows (pandas e) (lg name) @
                       [[VStr (now e), VStr name, VStr ''Login Success'', VStr [], VStr [], VStr []]]\<rparr>),
                   shown = [Title ''MetaRate Login''], rerun = True\<rparr>"
    if "filter (\<lambda>row. user_name row = VStr name) users_df = row # rest" "password_str row = password"
    for row rest
    using that assms(1,2) by (simp add: router_def draw_login_page_def la sidebar_def)
  have settled: "app (Suc (Suc n)) (LoginSubmit name password) (Some s) e lg =
              Some (draw_progress_page NoEvent
                (s\<lparr>logged_in := True, username := Some name,
                   is_admin := Some (case admin_cell row of None \<Rightarrow> False | Some b \<Rightarrow> b),
                   page := ''progress''\<rparr>) e
                (lg(name := Workbook \<lparr>columns = log_columns,
                     rows = log_rows (pandas e) (lg name) @
                       [[VStr (now e), VStr name, VStr ''Login Success'', VStr [], VStr [], VStr []]]\<rparr>)))"
    if "filter (\<lambda>row. user_name row = VStr name) users_df = row # rest" "password_str row = password"
    for row rest
  proof -
    have "app (Suc n) NoEvent
        (Some (s\<lparr>logged_in := True, username := Some name,
                 is_admin := Some (case admin_cell row of None \<Rightarrow> False | Some b \<Rightarrow> b),
                 page := ''progress''\<rparr>)) e
        (lg(name := Workbook \<lparr>columns = log_columns,
             rows = log_rows (pandas e) (lg name) @
               [[VStr (now e), VStr name, VStr ''Login Success'', VStr [], VStr [], VStr []]]\<rparr>))
      = Some (draw_progress_page NoEvent
          (s\<lparr>logged_in := True, username := Some name,
             is_admin := Some (case admin_cell row of None \<Rightarrow> False | Some b \<Rightarrow> b),
             page := ''progress''\<rparr>) e
          (lg(name := Workbook \<lparr>columns = log_columns,
               rows = log_rows (pandas e) (lg name) @
                 [[VStr (now e), VStr name, VStr ''Login Success'', VStr [], VStr [], VStr []]]\<rparr>)))"
      by (intro app_progress) simp_all
    with success [OF that] show ?thesis by simp
  qed
  have failure: "router (LoginSubmit name password) (Some s) e lg =
              Inr \<lparr>sess = s,
                   files = (if name = [] then lg
                            else lg(name := Workbook \<lparr>columns = log_columns,
                              rows = log_rows (pandas e) (lg name) @
                                [[VStr (now e), VStr name, VStr ''Login Fail'', VStr [], VStr [], VStr []]]\<rparr>)),
                   shown = [Title ''MetaRate Login'', ErrorMsg ''Invalid username or password''],
                   rerun = False\<rparr>"
    if "filter (\<lambda>row. user_name row = VStr name) users_df = []
        \<or> (\<exists>row rest. filter (\<lambda>row. user_name row = VStr name) users_df = row # rest
              \<and> password_str row \<noteq> password)"
    using that assms(1,2)
    by (auto simp: router_def draw_login_page_def login_failed_def la sidebar_def)
  show ?thesis
    using success settled failure by blast
qed

text \<open>Claim C9, amended, at a right and at a wrong password.\<close>

theorem login_attempt_witness:
  "\<not> logged_in fresh_session \<and> users sample_env = Some roster \<and> no_logs ''alice'' \<noteq> Corrupt
   \<and> can_write (pandas sample_env) ''alice''

   \<and> router (LoginSubmit ''alice'' ''wonder'') (Some fresh_session) sample_env no_logs =
       Inr \<lparr>sess = alice_session,
            files = no_logs(''alice'' := Workbook \<lparr>columns = log_columns,
              rows = [[VStr ''2024-01-01 10:05:00'', VStr ''alice'', VStr ''Login Success'',
                       VStr [], VStr [], VStr []]]\<rparr>),
            shown = [Title ''MetaRate Login''], rerun = True\<rparr>
   \<and> router (LoginSubmit ''alice'' ''guess'') (Some fresh_session) sample_env no_logs =
       Inr \<lparr>sess = fresh_session,
            files = no_logs(''alice'' := Workbook \<lparr>columns = log_columns,
              rows = [[VStr ''2024-01-01 10:05:00'', VStr ''alice'', VStr ''Login Fail'',
                       VStr [], VStr [], VStr []]]\<rparr>),
            shown = [Title ''MetaRate Login'', ErrorMsg ''Invalid username or password''],
            rerun = False\<rparr>"
proof -
  have h: "\<not> logged_in fresh_session" "users sample_env = Some roster" "no_logs ''alice'' \<noteq> Corrupt"
    "can_write (pandas sample_env) ''alice''"
    by (simp_all add: fresh_session_def sample_env_def no_logs_def sample_excel_def)
  have f: "filter (\<lambda>row. user_name row = VStr ''alice'') roster =
      [\<lparr>user_name = VStr ''alice'', password_str = ''wonder'', admin_cell = Some False\<rparr>]"
    by (simp add: roster_def)
  have s: "fresh_session\<lparr>logged_in := True, username := Some ''alice'', is_admin := Some False,
      page := ''progress''\<rparr> = alice_session"
    by (simp add: fresh_session_def alice_session_def)
  have n: "now sample_env = ''2024-01-01 10:05:00''" "log_rows (pandas sample_env) (no_logs ''alice'') = []"
    by (simp_all add: sample_env_def log_rows_def no_logs_def)
  show ?thesis
    using login_attempt [where lg = no_logs and name = "''alice''" and password = "''wonder''"
        and n = 0, OF h]
      login_attempt [where lg = no_logs and name = "''alice''" and password = "''guess''"
        and n = 0, OF h] h
    by (simp add: f s n)
qed

text \<open>
  Claim C9 as stated fails for a failed attempt with an empty username: the error is
  shown, the session stays logged out, and no log is written.
\<close>

theorem login_failure_counterexample:
  "router (LoginSubmit [] ''guess'') None sample_env no_logs =
     Inr \<lparr>sess = fresh_session, files = no_logs,
          shown = [Title ''MetaRate Login'', ErrorMsg ''Invalid username or password''],
          rerun = False\<rparr>"
  by (simp add: router_def draw_login_page_def login_failed_def fresh_session_def sample_env_def
      roster_def)

end
